theory Spec2Isabelle
  imports Main
begin

section \<open>The bootstrap script \<open>setup.py\<close> and the script it emits\<close>

text \<open>
  \<open>setup.py\<close> is a sequence of prints, three possible child processes and one file
  write, guarded by conditionals. The embedding keeps that shape:
  \<^item> what the script reads from its surroundings (the \<open>sys\<close> attributes, \<open>os.environ\<close>,
    \<open>shutil.which\<close>, \<open>platform.system()\<close>, and the exit status a child process ends
    with) is a record \<open>process\<close>, which no statement of the script changes;
  \<^item> what the script does to its surroundings is a \<open>state\<close>: the trace of its prints,
    child-process invocations and file writes in the order they happen, and the files of
    the working directory;
  \<^item> a statement is a function from the state to an outcome and the next state; the
    outcome is a returned value or the exception that left the statement
    (\<open>SystemExit\<close> from \<open>sys.exit\<close>, \<open>CalledProcessError\<close> from
    \<open>subprocess.check_call\<close>).
  Strings are Python \<open>str\<close> values of ASCII characters; the double quote, the backslash
  and the single quote are written by their codes (\<open>0x22\<close>, \<open>0x5C\<close>, \<open>0x27\<close>).
  A child process that cannot be started and a file that cannot be opened are outside
  the model: \<open>check_call\<close> is the child's exit status, \<open>open\<close> always succeeds.
\<close>

subsection \<open>Configuration (lines 7--21)\<close>

definition ENV_NAME :: string where
  "ENV_NAME = ''pennylane_lab''"

definition REQUIRED_PY_MAJOR :: nat where
  "REQUIRED_PY_MAJOR = 3"

definition REQUIRED_PY_MINOR :: nat where
  "REQUIRED_PY_MINOR = 10"

definition TARGET_PY_VERSION :: string where
  "TARGET_PY_VERSION = ''3.13''"

definition PIP_PACKAGES :: "string list" where
  "PIP_PACKAGES =
    [''pennylane>=0.38'',
     ''pennylane-qiskit'',
     ''numpy>=2.3.5'',
     ''stim'',
     ''matplotlib'',
     ''jupyter'']"

subsection \<open>The process and its effects\<close>

record process =
  sys_prefix :: string
  sys_base_prefix :: "string option"
  os_environ :: "string \<rightharpoonup> string"
  sys_version_info :: "nat \<times> nat \<times> nat"
  sys_executable :: string
  shutil_which :: "string \<Rightarrow> string option"
  platform_system :: string
  returncode :: "string list \<Rightarrow> int"

text \<open>
  \<open>sys_base_prefix\<close> is \<open>None\<close> when the interpreter has no attribute \<open>base_prefix\<close>
  (the case \<open>getattr\<close>'s default is for). \<open>sys_version_info\<close> is (major, minor, micro),
  natural numbers in every interpreter. \<open>returncode p cmd\<close> is the exit status of the
  child process started with the argument vector \<open>cmd\<close>.
\<close>

datatype event =
    Print string
  | Call "string list"
  | Write string string

text \<open>
  \<open>Print m\<close> is \<open>print(m)\<close> (the line feed \<open>print\<close> adds is not part of \<open>m\<close>),
  \<open>Call cmd\<close> is \<open>subprocess.check_call(cmd)\<close>, \<open>Write name text\<close> is \<open>f.write(text)\<close>
  on the file opened under \<open>name\<close>.
\<close>

record state =
  events :: "event list"
  files :: "string \<rightharpoonup> string"

datatype exn = SystemExit int | CalledProcessError

datatype 'a outcome = Returned 'a | Raised exn

type_synonym 'a prog = "state \<Rightarrow> 'a outcome \<times> state"

definition return :: "'a \<Rightarrow> 'a prog" where
  "return x s = (Returned x, s)"

definition bind :: "'a prog \<Rightarrow> ('a \<Rightarrow> 'b prog) \<Rightarrow> 'b prog" where
  "bind m f s =
    (case m s of
       (Returned x, s') \<Rightarrow> f x s'
     | (Raised e, s') \<Rightarrow> (Raised e, s'))"

definition seq :: "unit prog \<Rightarrow> 'a prog \<Rightarrow> 'a prog" where
  "seq m k = bind m (\<lambda>_. k)"

fun block :: "unit prog list \<Rightarrow> unit prog" where
  "block [] = return ()"
| "block (c # cs) = seq c (block cs)"

definition try_except :: "'a prog \<Rightarrow> 'a prog \<Rightarrow> 'a prog" where
  \<comment> \<open>\<open>try: body except subprocess.CalledProcessError: handler\<close>\<close>
  "try_except body handler s =
    (case body s of
       (Raised CalledProcessError, s') \<Rightarrow> handler s'
     | r \<Rightarrow> r)"

definition print :: "string \<Rightarrow> unit prog" where
  "print m s = (Returned (), s\<lparr>events := events s @ [Print m]\<rparr>)"

definition sys_exit :: "int \<Rightarrow> 'a prog" where
  "sys_exit n s = (Raised (SystemExit n), s)"

definition check_call :: "process \<Rightarrow> string list \<Rightarrow> unit prog" where
  \<comment> \<open>runs the child to its end; a non-zero exit status raises\<close>
  "check_call p cmd s =
    (let s' = s\<lparr>events := events s @ [Call cmd]\<rparr>
     in if returncode p cmd = 0 then (Returned (), s') else (Raised CalledProcessError, s'))"

definition open_w :: "string \<Rightarrow> unit prog" where
  \<comment> \<open>\<open>open(name, "w")\<close>: the file is created, or cut to length zero\<close>
  "open_w name s = (Returned (), s\<lparr>files := (files s)(name \<mapsto> [])\<rparr>)"

definition file_write :: "string \<Rightarrow> string \<Rightarrow> unit prog" where
  \<comment> \<open>\<open>f.write(text)\<close>: the text goes after what the open file holds\<close>
  "file_write name text s =
    (case files s name of
       None \<Rightarrow> (Returned (), s\<lparr>events := events s @ [Write name text]\<rparr>)
     | Some old \<Rightarrow>
         (Returned (),
          s\<lparr>events := events s @ [Write name text], files := (files s)(name \<mapsto> old @ text)\<rparr>))"

definition truthy :: "string option \<Rightarrow> bool" where
  \<comment> \<open>Python's truth value of \<open>None\<close> or a \<open>str\<close>\<close>
  "truthy v = (case v of None \<Rightarrow> False | Some x \<Rightarrow> x \<noteq> [])"

function str_nat :: "nat \<Rightarrow> string" where
  \<comment> \<open>the decimal digits an f-string gives a non-negative \<open>int\<close>\<close>
  "str_nat n =
    (if n < 10 then [''0123456789'' ! n]
     else str_nat (n div 10) @ [''0123456789'' ! (n mod 10)])"
  by pat_completeness auto
termination
  by (relation "measure id") auto

declare str_nat.simps [simp del]

fun exit_status :: "'a outcome \<Rightarrow> int" where
  \<comment> \<open>the status the interpreter ends with: 0 when \<open>main()\<close> returns, the argument of
      \<open>sys.exit\<close>, 1 for any other exception that nobody catches\<close>
  "exit_status (Returned _) = 0"
| "exit_status (Raised (SystemExit n)) = n"
| "exit_status (Raised CalledProcessError) = 1"

subsection \<open>The functions of \<open>setup.py\<close>\<close>

definition print_step :: "string \<Rightarrow> unit prog" where
  "print_step message = print (''\<newline>[+] '' @ message)"

definition print_warn :: "string \<Rightarrow> unit prog" where
  "print_warn message = print (''\<newline>[!] WARNING: '' @ message)"

definition print_error :: "string \<Rightarrow> unit prog" where
  "print_error message = print (''\<newline>[!!] ERROR: '' @ message)"

definition is_virtual_env :: "process \<Rightarrow> bool" where
  "is_virtual_env p =
    (let is_venv = (sys_prefix p \<noteq> (case sys_base_prefix p of None \<Rightarrow> sys_prefix p | Some b \<Rightarrow> b));
         is_conda = (os_environ p ''CONDA_DEFAULT_ENV'' \<noteq> None)
     in is_venv \<or> is_conda)"

definition check_python_version :: "process \<Rightarrow> unit prog" where
  "check_python_version p =
    (case sys_version_info p of (major, minor, micro) \<Rightarrow>
      block
       [print (''    Current Python: '' @ str_nat major @ ''.'' @ str_nat minor @ ''.'' @ str_nat micro),
        if major < REQUIRED_PY_MAJOR \<or> (major = REQUIRED_PY_MAJOR \<and> minor < REQUIRED_PY_MINOR)
        then block
          [print_error
             (''PennyLane requires Python '' @ str_nat REQUIRED_PY_MAJOR @ ''.'' @
              str_nat REQUIRED_PY_MINOR @ ''+. You are running '' @ str_nat major @ ''.'' @
              str_nat minor @ ''.''),
           sys_exit 1]
        else return ()])"

definition install_packages_current_env :: "process \<Rightarrow> unit prog" where
  "install_packages_current_env p =
    block
     [print_step ''Installing packages into CURRENT active environment...'',
      (let cmd = [sys_executable p, ''-m'', ''pip'', ''install''] @ PIP_PACKAGES
       in try_except
            (block [check_call p cmd, print ''    Success: Packages installed.''])
            (block [print_error ''Failed to install packages via pip.'', sys_exit 1]))]"

definition create_conda_env_if_needed :: "process \<Rightarrow> bool prog" where
  "create_conda_env_if_needed p =
    seq (print_step ''Checking for existing environment...'')
     (if is_virtual_env p
      then seq (print (''    Active environment detected ('' @ sys_prefix p @ '').''))
          (seq (print ''    Skipping new environment creation.'')
          (return False))
      else
        seq (print ''    No active virtual environment detected.'')
       (seq (if \<not> truthy (shutil_which p ''conda'')
             then block
               [print_error ''No active venv found AND Conda is not installed.'',
                print ''    Please either:'',
                print ''    1. Create a venv (PyCharm/uv) and run this script inside it.'',
                print ''    2. Install Anaconda/Miniconda.'',
                sys_exit 1]
             else return ())
       (seq (print_step
               (''Creating fresh Conda environment '' @ [CHR 0x27] @ ENV_NAME @ [CHR 0x27] @
                '' with Python '' @ TARGET_PY_VERSION @ ''...''))
       (seq (try_except
               (check_call p
                  [''conda'', ''create'', ''-n'', ENV_NAME, ''python='' @ TARGET_PY_VERSION, ''-y''])
               (block [print_error ''Failed to create Conda environment.'', sys_exit 1]))
       (return True)))))"

definition install_packages_conda_env :: "process \<Rightarrow> unit prog" where
  "install_packages_conda_env p =
    block
     [print_step (''Installing packages into Conda env '' @ [CHR 0x27] @ ENV_NAME @ [CHR 0x27] @ ''...''),
      (let pip_cmd = [''conda'', ''run'', ''-n'', ENV_NAME, ''pip'', ''install''] @ PIP_PACKAGES
       in try_except
            (check_call p pip_cmd)
            (block [print_error ''Failed to install packages into Conda env.'', sys_exit 1]))]"

definition verification_code :: string where
  \<comment> \<open>the value of the local variable \<open>code\<close> (lines 125--155): the triple-quoted literal
      starts with the line feed after the opening quotes and ends with the one before the
      closing quotes; the escaped backslash of its sixth line is one backslash, followed
      by the letter n\<close>
  "verification_code =
    ''\<newline>'' @
    ''import pennylane as qml\<newline>'' @
    ''import matplotlib.pyplot as plt\<newline>'' @
    ''import sys\<newline>'' @
    ''\<newline>'' @
    ''print(f'' @ [CHR 0x22] @ [CHR 0x5C] @ ''nPython Version: {sys.version.split()[0]}'' @ [CHR 0x22] @ '')\<newline>'' @
    ''print(f'' @ [CHR 0x22] @ ''PennyLane Version: {qml.version()}'' @ [CHR 0x22] @ '')\<newline>'' @
    ''def main():\<newline>'' @
    ''    # 1. Device Creation Check\<newline>'' @
    ''    try:\<newline>'' @
    ''        dev = qml.device('' @ [CHR 0x22] @ ''default.qubit'' @ [CHR 0x22] @ '', wires=2)\<newline>'' @
    ''        print('' @ [CHR 0x22] @ ''Device created successfully.'' @ [CHR 0x22] @ '')\<newline>'' @
    ''    except Exception as e:\<newline>'' @
    ''        print(f'' @ [CHR 0x22] @ ''Error creating device: {e}'' @ [CHR 0x22] @ '')\<newline>'' @
    ''        sys.exit(1)\<newline>'' @
    ''\<newline>'' @
    ''    # 2. Circuit Execution Check\<newline>'' @
    ''    @qml.qnode(dev)\<newline>'' @
    ''    def circuit(theta):\<newline>'' @
    ''        qml.RX(theta, wires=0)\<newline>'' @
    ''        qml.CNOT(wires=[0, 1])\<newline>'' @
    ''        return qml.expval(qml.PauliZ(0))\<newline>'' @
    ''\<newline>'' @
    ''    try:\<newline>'' @
    ''        result = circuit(0.5)\<newline>'' @
    ''        print(f'' @ [CHR 0x22] @ ''Circuit execution result: {result}'' @ [CHR 0x22] @ '')\<newline>'' @
    ''        print('' @ [CHR 0x22] @ ''SUCCESS: Environment is ready for the lab.'' @ [CHR 0x22] @ '')\<newline>'' @
    ''    except Exception as e:\<newline>'' @
    ''        print(f'' @ [CHR 0x22] @ ''Error running circuit: {e}'' @ [CHR 0x22] @ '')\<newline>'' @
    ''if __name__ == '' @ [CHR 0x22] @ ''__main__'' @ [CHR 0x22] @ '':\<newline>'' @
    ''    main()\<newline>''"

definition create_verification_script :: "unit prog" where
  "create_verification_script =
    block
     [print_step ''Creating verification script (verify_install.py)...'',
      open_w ''verify_install.py'',
      file_write ''verify_install.py'' verification_code]"

definition current_env_flow :: "process \<Rightarrow> unit prog" where
  \<comment> \<open>the body of \<open>main\<close>'s \<open>if is_virtual_env():\<close> (lines 168--173)\<close>
  "current_env_flow p =
    block
     [print ''Status: Running inside an active virtual environment.'',
      check_python_version p,
      install_packages_current_env p,
      create_verification_script,
      print_step ''SETUP COMPLETE (In current environment)'',
      print ''Run: python verify_install.py'']"

definition conda_flow :: "process \<Rightarrow> unit prog" where
  \<comment> \<open>the body of \<open>main\<close>'s \<open>else:\<close> (lines 177--189)\<close>
  "conda_flow p =
    seq (print ''Status: System python detected (unsafe). initializing Conda flow.'')
   (seq (check_python_version p)
   (bind (create_conda_env_if_needed p) (\<lambda>created_new.
      if created_new
      then block
        [install_packages_conda_env p,
         create_verification_script,
         print_step ''SETUP COMPLETE (New Conda Env Created)'',
         if platform_system p = ''Windows''
         then print (''Run: conda activate '' @ ENV_NAME)
         else print (''Run: conda activate '' @ ENV_NAME),
         print ''Then: python verify_install.py'']
      else return ())))"

definition main :: "process \<Rightarrow> unit prog" where
  "main p =
    block
     [print ''========================================='',
      print ''   PennyLane Lab Setup (Smart Mode)'',
      print ''========================================='',
      if is_virtual_env p then current_env_flow p else conda_flow p]"

definition run :: "process \<Rightarrow> (string \<rightharpoonup> string) \<Rightarrow> unit outcome \<times> state" where
  \<comment> \<open>\<open>python setup.py\<close> in a working directory that holds the files \<open>fs\<close>\<close>
  "run p fs = main p \<lparr>events = [], files = fs\<rparr>"

subsection \<open>The shipped file \<open>verify_install.py\<close>\<close>

definition verify_install_py :: string where
  \<comment> \<open>the text of \<open>src/verify_install.py\<close>, whose last line has no line feed\<close>
  "verify_install_py =
    ''\<newline>'' @
    ''import pennylane as qml\<newline>'' @
    ''import matplotlib.pyplot as plt\<newline>'' @
    ''import sys\<newline>'' @
    ''\<newline>'' @
    ''print(f'' @ [CHR 0x22] @ [CHR 0x5C] @ ''nPython Version: {sys.version.split()[0]}'' @ [CHR 0x22] @ '')\<newline>'' @
    ''print(f'' @ [CHR 0x22] @ ''PennyLane Version: {qml.version()}'' @ [CHR 0x22] @ '')\<newline>'' @
    ''def main():\<newline>'' @
    ''    # 1. Device Creation Check\<newline>'' @
    ''    try:\<newline>'' @
    ''        dev = qml.device('' @ [CHR 0x22] @ ''default.qubit'' @ [CHR 0x22] @ '', wires=2)\<newline>'' @
    ''        print('' @ [CHR 0x22] @ ''Device created successfully.'' @ [CHR 0x22] @ '')\<newline>'' @
    ''    except Exception as e:\<newline>'' @
    ''        print(f'' @ [CHR 0x22] @ ''Error creating device: {e}'' @ [CHR 0x22] @ '')\<newline>'' @
    ''        sys.exit(1)\<newline>'' @
    ''\<newline>'' @
    ''    # 2. Circuit Execution Check\<newline>'' @
    ''    @qml.qnode(dev)\<newline>'' @
    ''    def circuit(theta):\<newline>'' @
    ''        qml.RX(theta, wires=0)\<newline>'' @
    ''        qml.CNOT(wires=[0, 1])\<newline>'' @
    ''        return qml.expval(qml.PauliZ(0))\<newline>'' @
    ''\<newline>'' @
    ''    try:\<newline>'' @
    ''        result = circuit(0.5)\<newline>'' @
    ''        print(f'' @ [CHR 0x22] @ ''Circuit execution result: {result}'' @ [CHR 0x22] @ '')\<newline>'' @
    ''        print('' @ [CHR 0x22] @ ''SUCCESS: Environment is ready for the lab.'' @ [CHR 0x22] @ '')\<newline>'' @
    ''    except Exception as e:\<newline>'' @
    ''        print(f'' @ [CHR 0x22] @ ''Error running circuit: {e}'' @ [CHR 0x22] @ '')\<newline>'' @
    ''if __name__ == '' @ [CHR 0x22] @ ''__main__'' @ [CHR 0x22] @ '':\<newline>'' @
    ''    main()''"

subsection \<open>Observations on a trace, and the specification's wording of the detector\<close>

fun calls :: "event list \<Rightarrow> string list list" where
  \<comment> \<open>the argument vectors of the child processes, in the order they were started\<close>
  "calls [] = []"
| "calls (Call cmd # es) = cmd # calls es"
| "calls (Print m # es) = calls es"
| "calls (Write name text # es) = calls es"

fun effects :: "event list \<Rightarrow> event list" where
  \<comment> \<open>the trace without its prints: child processes and file writes\<close>
  "effects [] = []"
| "effects (Print m # es) = effects es"
| "effects (Call cmd # es) = Call cmd # effects es"
| "effects (Write name text # es) = Write name text # effects es"

fun prints :: "event list \<Rightarrow> string list" where
  \<comment> \<open>what was printed, in order\<close>
  "prints [] = []"
| "prints (Print m # es) = m # prints es"
| "prints (Call cmd # es) = prints es"
| "prints (Write name text # es) = prints es"

definition spec_detector :: "process \<Rightarrow> bool" where
  \<comment> \<open>the verdict as the specification words it: the install prefix differs from the
      base prefix, or the marker variable is present and non-empty\<close>
  "spec_detector p =
    (sys_prefix p \<noteq> (case sys_base_prefix p of None \<Rightarrow> sys_prefix p | Some b \<Rightarrow> b) \<or>
     (case os_environ p ''CONDA_DEFAULT_ENV'' of None \<Rightarrow> False | Some v \<Rightarrow> v \<noteq> []))"

subsection \<open>Concrete processes\<close>

definition no_files :: "string \<rightharpoonup> string" where
  "no_files = Map.empty"

definition stale_files :: "string \<rightharpoonup> string" where
  \<comment> \<open>a working directory that holds an older \<open>verify_install.py\<close> and one more file\<close>
  "stale_files = [''verify_install.py'' \<mapsto> ''print(1)\<newline>'', ''notes.txt'' \<mapsto> ''lab'']"

definition venv_python_312 :: process where
  \<comment> \<open>Python 3.12.1 of an activated venv; \<open>pip\<close> succeeds\<close>
  "venv_python_312 =
    \<lparr>sys_prefix = ''/home/lab/.venv'', sys_base_prefix = Some ''/usr'', os_environ = Map.empty,
     sys_version_info = (3, 12, 1), sys_executable = ''/home/lab/.venv/bin/python'',
     shutil_which = (\<lambda>name. None),
     platform_system = ''Linux'', returncode = (\<lambda>cmd. 0)\<rparr>"

definition venv_python_39 :: process where
  \<comment> \<open>Python 3.9.6 of an activated venv\<close>
  "venv_python_39 =
    \<lparr>sys_prefix = ''/home/lab/.venv'', sys_base_prefix = Some ''/usr'', os_environ = Map.empty,
     sys_version_info = (3, 9, 6), sys_executable = ''/home/lab/.venv/bin/python'',
     shutil_which = (\<lambda>name. None),
     platform_system = ''Linux'', returncode = (\<lambda>cmd. 0)\<rparr>"

definition system_python_312 :: process where
  \<comment> \<open>the system's Python 3.12.1, no environment active, \<open>conda\<close> on the search path,
      every child process succeeds\<close>
  "system_python_312 =
    \<lparr>sys_prefix = ''/usr'', sys_base_prefix = Some ''/usr'', os_environ = Map.empty,
     sys_version_info = (3, 12, 1), sys_executable = ''/usr/bin/python3'',
     shutil_which = (\<lambda>name. if name = ''conda'' then Some ''/opt/conda/bin/conda'' else None),
     platform_system = ''Linux'', returncode = (\<lambda>cmd. 0)\<rparr>"

definition system_python_39 :: process where
  \<comment> \<open>as \<open>system_python_312\<close>, with the system's Python 3.9.6\<close>
  "system_python_39 =
    \<lparr>sys_prefix = ''/usr'', sys_base_prefix = Some ''/usr'', os_environ = Map.empty,
     sys_version_info = (3, 9, 6), sys_executable = ''/usr/bin/python3'',
     shutil_which = (\<lambda>name. if name = ''conda'' then Some ''/opt/conda/bin/conda'' else None),
     platform_system = ''Linux'', returncode = (\<lambda>cmd. 0)\<rparr>"

definition system_python_39_no_conda :: process where
  \<comment> \<open>the system's Python 3.9.6, no environment active, no \<open>conda\<close> on the search path\<close>
  "system_python_39_no_conda =
    \<lparr>sys_prefix = ''/usr'', sys_base_prefix = Some ''/usr'', os_environ = Map.empty,
     sys_version_info = (3, 9, 6), sys_executable = ''/usr/bin/python3'',
     shutil_which = (\<lambda>name. None),
     platform_system = ''Linux'', returncode = (\<lambda>cmd. 0)\<rparr>"

definition empty_marker_python :: process where
  \<comment> \<open>the system's Python started as \<open>CONDA_DEFAULT_ENV= python3 setup.py\<close>: the marker
      variable is in the environment and its value is the empty string\<close>
  "empty_marker_python =
    \<lparr>sys_prefix = ''/usr'', sys_base_prefix = Some ''/usr'',
     os_environ = [''CONDA_DEFAULT_ENV'' \<mapsto> ''''],
     sys_version_info = (3, 12, 1), sys_executable = ''/usr/bin/python3'',
     shutil_which = (\<lambda>name. None),
     platform_system = ''Linux'', returncode = (\<lambda>cmd. 0)\<rparr>"

section \<open>What a run does\<close>

subsection \<open>Each function as one equation\<close>

lemmas prog_defs = return_def bind_def seq_def try_except_def print_def sys_exit_def
  check_call_def open_w_def file_write_def print_step_def print_error_def

lemma check_python_version_run:
  "check_python_version p s =
    (case sys_version_info p of (major, minor, micro) \<Rightarrow>
      if major < 3 \<or> (major = 3 \<and> minor < 10)
      then (Raised (SystemExit 1),
            s\<lparr>events := events s @
              [Print (''    Current Python: '' @ str_nat major @ ''.'' @ str_nat minor @ ''.'' @ str_nat micro),
               Print (''\<newline>[!!] ERROR: PennyLane requires Python 3.10+. You are running '' @
                      str_nat major @ ''.'' @ str_nat minor @ ''.'')]\<rparr>)
      else (Returned (),
            s\<lparr>events := events s @
              [Print (''    Current Python: '' @ str_nat major @ ''.'' @ str_nat minor @ ''.'' @ str_nat micro)]\<rparr>))"
  by (simp add: check_python_version_def prog_defs REQUIRED_PY_MAJOR_def REQUIRED_PY_MINOR_def
      str_nat.simps split: prod.splits)

lemma install_packages_current_env_run:
  "install_packages_current_env p s =
    (let cmd = [sys_executable p, ''-m'', ''pip'', ''install'', ''pennylane>=0.38'', ''pennylane-qiskit'',
                ''numpy>=2.3.5'', ''stim'', ''matplotlib'', ''jupyter'']
     in if returncode p cmd = 0
        then (Returned (),
              s\<lparr>events := events s @
                [Print ''\<newline>[+] Installing packages into CURRENT active environment...'',
                 Call cmd,
                 Print ''    Success: Packages installed.'']\<rparr>)
        else (Raised (SystemExit 1),
              s\<lparr>events := events s @
                [Print ''\<newline>[+] Installing packages into CURRENT active environment...'',
                 Call cmd,
                 Print ''\<newline>[!!] ERROR: Failed to install packages via pip.'']\<rparr>))"
  by (simp add: install_packages_current_env_def prog_defs PIP_PACKAGES_def Let_def)

lemma create_verification_script_run:
  "create_verification_script s =
    (Returned (),
     s\<lparr>events := events s @
         [Print ''\<newline>[+] Creating verification script (verify_install.py)...'',
          Write ''verify_install.py'' verification_code],
       files := (files s)(''verify_install.py'' \<mapsto> verification_code)\<rparr>)"
  by (simp add: create_verification_script_def prog_defs)


lemma create_conda_env_if_needed_run:
  "create_conda_env_if_needed p s =
    (let create = [''conda'', ''create'', ''-n'', ''pennylane_lab'', ''python=3.13'', ''-y''] in
     if is_virtual_env p
     then (Returned False,
           s\<lparr>events := events s @
             [Print ''\<newline>[+] Checking for existing environment...'',
              Print (''    Active environment detected ('' @ sys_prefix p @ '').''),
              Print ''    Skipping new environment creation.'']\<rparr>)
     else if \<not> truthy (shutil_which p ''conda'')
     then (Raised (SystemExit 1),
           s\<lparr>events := events s @
             [Print ''\<newline>[+] Checking for existing environment...'',
              Print ''    No active virtual environment detected.'',
              Print ''\<newline>[!!] ERROR: No active venv found AND Conda is not installed.'',
              Print ''    Please either:'',
              Print ''    1. Create a venv (PyCharm/uv) and run this script inside it.'',
              Print ''    2. Install Anaconda/Miniconda.'']\<rparr>)
     else if returncode p create = 0
     then (Returned True,
           s\<lparr>events := events s @
             [Print ''\<newline>[+] Checking for existing environment...'',
              Print ''    No active virtual environment detected.'',
              Print (''\<newline>[+] Creating fresh Conda environment '' @ [CHR 0x27] @ ''pennylane_lab'' @
                     [CHR 0x27] @ '' with Python 3.13...''),
              Call create]\<rparr>)
     else (Raised (SystemExit 1),
           s\<lparr>events := events s @
             [Print ''\<newline>[+] Checking for existing environment...'',
              Print ''    No active virtual environment detected.'',
              Print (''\<newline>[+] Creating fresh Conda environment '' @ [CHR 0x27] @ ''pennylane_lab'' @
                     [CHR 0x27] @ '' with Python 3.13...''),
              Call create,
              Print ''\<newline>[!!] ERROR: Failed to create Conda environment.'']\<rparr>))"
  by (simp add: create_conda_env_if_needed_def prog_defs ENV_NAME_def TARGET_PY_VERSION_def Let_def)

lemma install_packages_conda_env_run:
  "install_packages_conda_env p s =
    (let pip_cmd = [''conda'', ''run'', ''-n'', ''pennylane_lab'', ''pip'', ''install'', ''pennylane>=0.38'',
                    ''pennylane-qiskit'', ''numpy>=2.3.5'', ''stim'', ''matplotlib'', ''jupyter'']
     in if returncode p pip_cmd = 0
        then (Returned (),
              s\<lparr>events := events s @
                [Print (''\<newline>[+] Installing packages into Conda env '' @ [CHR 0x27] @ ''pennylane_lab'' @
                        [CHR 0x27] @ ''...''),
                 Call pip_cmd]\<rparr>)
        else (Raised (SystemExit 1),
              s\<lparr>events := events s @
                [Print (''\<newline>[+] Installing packages into Conda env '' @ [CHR 0x27] @ ''pennylane_lab'' @
                        [CHR 0x27] @ ''...''),
                 Call pip_cmd,
                 Print ''\<newline>[!!] ERROR: Failed to install packages into Conda env.'']\<rparr>))"
  by (simp add: install_packages_conda_env_def prog_defs PIP_PACKAGES_def ENV_NAME_def Let_def)

lemmas run_simps = check_python_version_run install_packages_current_env_run
  create_verification_script_run create_conda_env_if_needed_run install_packages_conda_env_run

lemma calls_append [simp]: "calls (xs @ ys) = calls xs @ calls ys"
  by (induction xs rule: calls.induct) simp_all

lemma effects_append [simp]: "effects (xs @ ys) = effects xs @ effects ys"
  by (induction xs rule: effects.induct) simp_all

lemma prints_append [simp]: "prints (xs @ ys) = prints xs @ prints ys"
  by (induction xs rule: prints.induct) simp_all

lemmas main_defs = run_def main_def current_env_flow_def conda_flow_def

lemmas step_defs = return_def seq_def bind_def print_def print_step_def

subsection \<open>A whole run\<close>

lemma run_outcome:
  assumes "sys_version_info p = (major, minor, micro)"
  shows "fst (run p fs) =
    (if major < 3 \<or> (major = 3 \<and> minor < 10) then Raised (SystemExit 1)
     else if is_virtual_env p
     then (if returncode p ([sys_executable p, ''-m'', ''pip'', ''install''] @ PIP_PACKAGES) = 0
           then Returned () else Raised (SystemExit 1))
     else if \<not> truthy (shutil_which p ''conda'') then Raised (SystemExit 1)
     else if returncode p [''conda'', ''create'', ''-n'', ENV_NAME, ''python='' @ TARGET_PY_VERSION, ''-y''] \<noteq> 0
     then Raised (SystemExit 1)
     else if returncode p ([''conda'', ''run'', ''-n'', ENV_NAME, ''pip'', ''install''] @ PIP_PACKAGES) = 0
     then Returned () else Raised (SystemExit 1))"
  using assms
  by (simp add: main_defs run_simps step_defs Let_def PIP_PACKAGES_def ENV_NAME_def
      TARGET_PY_VERSION_def)

lemma run_files:
  "files (snd (run p fs)) =
    (if fst (run p fs) = Returned () then fs(''verify_install.py'' \<mapsto> verification_code) else fs)"
  by (simp add: main_defs run_simps step_defs Let_def split: prod.splits)

lemma run_effects:
  "effects (events (snd (run p fs))) =
     map Call (calls (events (snd (run p fs)))) @
     (if fst (run p fs) = Returned () then [Write ''verify_install.py'' verification_code] else [])"
  by (simp add: main_defs run_simps step_defs Let_def split: prod.splits)

section \<open>The specification's properties, checked on the model\<close>

subsection \<open>The environment detector\<close>

text \<open>
  C1 (as the specification states it): the detector returns "isolated" if and only if the
  install prefix differs from the base prefix or \<open>CONDA_DEFAULT_ENV\<close> is present and
  non-empty. The source tests \<open>os.environ.get("CONDA_DEFAULT_ENV") is not None\<close>, which
  a variable set to the empty string passes: on \<open>empty_marker_python\<close> both signals of
  the specification are false and the detector answers "isolated".
\<close>

theorem detector_empty_marker_counterexample:
  "is_virtual_env empty_marker_python \<and> \<not> spec_detector empty_marker_python"
  by (simp add: is_virtual_env_def spec_detector_def empty_marker_python_def)

text \<open>
  C1 (amended): the detector returns "isolated" if and only if the install prefix differs
  from the base prefix or \<open>CONDA_DEFAULT_ENV\<close> is present in the process environment,
  whatever its value; the verdict is the logical OR of these two signals, and it differs
  from the specification's verdict exactly where the variable is present and empty.
\<close>

theorem detector_verdict:
  "is_virtual_env p =
     ((\<exists>b. sys_base_prefix p = Some b \<and> b \<noteq> sys_prefix p) \<or>
      ''CONDA_DEFAULT_ENV'' \<in> dom (os_environ p)) \<and>
   is_virtual_env p = (spec_detector p \<or> os_environ p ''CONDA_DEFAULT_ENV'' = Some [])"
  by (auto simp add: is_virtual_env_def spec_detector_def split: option.splits)

theorem detector_verdict_witness:
  "is_virtual_env venv_python_312 \<and> spec_detector venv_python_312 \<and>
   is_virtual_env empty_marker_python \<and>
   \<not> is_virtual_env system_python_312 \<and> \<not> spec_detector system_python_312"
  using detector_verdict [of venv_python_312] detector_verdict [of empty_marker_python]
    detector_verdict [of system_python_312]
  by (simp add: venv_python_312_def empty_marker_python_def system_python_312_def
      spec_detector_def)

subsection \<open>The version gate\<close>

text \<open>
  C2: on the non-isolated path the version check is diagnostic only and does not gate
  environment creation: for every interpreter version the orchestrator goes on to the
  creation step. The source's own comment on the call says so ("Checks system python, but
  we will create new one anyway"), yet the call is the same \<open>check_python_version\<close>
  that ends the process below 3.10. On \<open>system_python_39\<close> (Python 3.9.6, no active
  environment, \<open>conda\<close> on the search path, every child process would succeed) the run
  ends with status 1 after the gate's error message: the creator's first message is never
  printed and no child process is started.
\<close>

theorem version_gate_stops_conda_flow:
  "\<not> is_virtual_env system_python_39 \<and>
   truthy (shutil_which system_python_39 ''conda'') \<and>
   fst (run system_python_39 no_files) = Raised (SystemExit 1) \<and>
   prints (events (snd (run system_python_39 no_files))) =
     [''========================================='',
      ''   PennyLane Lab Setup (Smart Mode)'',
      ''========================================='',
      ''Status: System python detected (unsafe). initializing Conda flow.'',
      ''    Current Python: 3.9.6'',
      ''\<newline>[!!] ERROR: PennyLane requires Python 3.10+. You are running 3.9.''] \<and>
   calls (events (snd (run system_python_39 no_files))) = [] \<and>
   files (snd (run system_python_39 no_files)) = no_files"
  by (simp add: main_defs run_simps step_defs system_python_39_def no_files_def
      is_virtual_env_def truthy_def str_nat.simps)

text \<open>
  C3: the version gate passes for every interpreter version with (major, minor) at
  least (3, 10); for every version below it prints the detected version and ends the
  whole process with a non-zero status (1) before any child process is started, and no
  file is written.
\<close>

theorem version_gate:
  assumes "sys_version_info p = (major, minor, micro)"
  shows "(3 < major \<or> (major = 3 \<and> 10 \<le> minor) \<longrightarrow>
            check_python_version p s =
              (Returned (),
               s\<lparr>events := events s @
                  [Print (''    Current Python: '' @ str_nat major @ ''.'' @ str_nat minor @ ''.'' @
                          str_nat micro)]\<rparr>)) \<and>
         (major < 3 \<or> (major = 3 \<and> minor < 10) \<longrightarrow>
            fst (check_python_version p s) = Raised (SystemExit 1) \<and>
            exit_status (fst (run p fs)) = 1 \<and>
            ''    Current Python: '' @ str_nat major @ ''.'' @ str_nat minor @ ''.'' @ str_nat micro
              \<in> set (prints (events (snd (run p fs)))) \<and>
            effects (events (snd (run p fs))) = [] \<and>
            files (snd (run p fs)) = fs)"
  using assms by (auto simp add: main_defs run_simps step_defs)

theorem version_gate_witness:
  "check_python_version venv_python_312 \<lparr>events = [], files = no_files\<rparr> =
     (Returned (), \<lparr>events = [Print ''    Current Python: 3.12.1''], files = no_files\<rparr>) \<and>
   fst (check_python_version venv_python_39 \<lparr>events = [], files = no_files\<rparr>) =
     Raised (SystemExit 1) \<and>
   exit_status (fst (run venv_python_39 no_files)) = 1 \<and>
   ''    Current Python: 3.9.6'' \<in> set (prints (events (snd (run venv_python_39 no_files)))) \<and>
   effects (events (snd (run venv_python_39 no_files))) = [] \<and>
   files (snd (run venv_python_39 no_files)) = no_files"
proof -
  have v312: "sys_version_info venv_python_312 = (3, 12, 1)"
    and v39: "sys_version_info venv_python_39 = (3, 9, 6)"
    by (simp_all add: venv_python_312_def venv_python_39_def)
  show ?thesis
    using version_gate [OF v312, of "\<lparr>events = [], files = no_files\<rparr>" no_files]
      version_gate [OF v39, of "\<lparr>events = [], files = no_files\<rparr>" no_files]
    by (simp add: str_nat.simps)
qed

subsection \<open>Child processes on each path\<close>

text \<open>
  C4: on every run in which the detector returns "isolated" and the version gate passes,
  exactly one child process is started, the in-place installer
  \<open>[sys.executable, "-m", "pip", "install"] + PIP_PACKAGES\<close>; the verification script is
  written after it (when the installer succeeds; otherwise it is not written), and the
  environment-creation command is never started.
\<close>

theorem isolated_run_one_subprocess:
  assumes "is_virtual_env p"
    and "sys_version_info p = (major, minor, micro)"
    and "3 < major \<or> (major = 3 \<and> 10 \<le> minor)"
  shows "calls (events (snd (run p fs))) =
           [ [sys_executable p, ''-m'', ''pip'', ''install''] @ PIP_PACKAGES] \<and>
         effects (events (snd (run p fs))) =
           Call ([sys_executable p, ''-m'', ''pip'', ''install''] @ PIP_PACKAGES) #
           (if returncode p ([sys_executable p, ''-m'', ''pip'', ''install''] @ PIP_PACKAGES) = 0
            then [Write ''verify_install.py'' verification_code] else []) \<and>
         [''conda'', ''create'', ''-n'', ENV_NAME, ''python='' @ TARGET_PY_VERSION, ''-y'']
           \<notin> set (calls (events (snd (run p fs))))"
  using assms
  by (auto simp add: main_defs run_simps step_defs Let_def PIP_PACKAGES_def)

theorem isolated_run_one_subprocess_witness:
  "is_virtual_env venv_python_312 \<and>
   calls (events (snd (run venv_python_312 no_files))) =
     [ [''/home/lab/.venv/bin/python'', ''-m'', ''pip'', ''install'', ''pennylane>=0.38'',
       ''pennylane-qiskit'', ''numpy>=2.3.5'', ''stim'', ''matplotlib'', ''jupyter''] ] \<and>
   effects (events (snd (run venv_python_312 no_files))) =
     [Call [''/home/lab/.venv/bin/python'', ''-m'', ''pip'', ''install'', ''pennylane>=0.38'',
            ''pennylane-qiskit'', ''numpy>=2.3.5'', ''stim'', ''matplotlib'', ''jupyter''],
      Write ''verify_install.py'' verification_code]"
proof -
  have isolated: "is_virtual_env venv_python_312"
    by (simp add: is_virtual_env_def venv_python_312_def)
  have version: "sys_version_info venv_python_312 = (3, 12, 1)"
    by (simp add: venv_python_312_def)
  have gate: "3 < (3::nat) \<or> ((3::nat) = 3 \<and> 10 \<le> (12::nat))"
    by simp
  have exe: "sys_executable venv_python_312 = ''/home/lab/.venv/bin/python''"
    and rc: "returncode venv_python_312 = (\<lambda>cmd. 0)"
    by (simp_all add: venv_python_312_def)
  show ?thesis
    using isolated isolated_run_one_subprocess [OF isolated version gate, of no_files]
    by (simp add: exe rc PIP_PACKAGES_def)
qed

text \<open>
  C5: on every run in which the detector returns "not isolated" and \<open>conda\<close> is not on
  the search path, no child process is started and the process ends with a non-zero status
  after printing the two suggested remediations. The remediations are printed by the
  creator, which a run on an interpreter below 3.10 never reaches: on
  \<open>system_python_39_no_conda\<close> the run ends at the version gate, with status 1 and no
  child process, and neither remediation is printed. This is the gate of C2 again.
\<close>

theorem version_gate_hides_remediations:
  "\<not> is_virtual_env system_python_39_no_conda \<and>
   shutil_which system_python_39_no_conda ''conda'' = None \<and>
   exit_status (fst (run system_python_39_no_conda no_files)) = 1 \<and>
   calls (events (snd (run system_python_39_no_conda no_files))) = [] \<and>
   prints (events (snd (run system_python_39_no_conda no_files))) =
     [''========================================='',
      ''   PennyLane Lab Setup (Smart Mode)'',
      ''========================================='',
      ''Status: System python detected (unsafe). initializing Conda flow.'',
      ''    Current Python: 3.9.6'',
      ''\<newline>[!!] ERROR: PennyLane requires Python 3.10+. You are running 3.9.''] \<and>
   ''    1. Create a venv (PyCharm/uv) and run this script inside it.''
     \<notin> set (prints (events (snd (run system_python_39_no_conda no_files)))) \<and>
   ''    2. Install Anaconda/Miniconda.''
     \<notin> set (prints (events (snd (run system_python_39_no_conda no_files))))"
  by (simp add: main_defs run_simps step_defs system_python_39_no_conda_def no_files_def is_virtual_env_def str_nat.simps)

text \<open>
  C6: on every run in which the detector returns "not isolated", \<open>conda\<close> is on the search
  path and the creation child process succeeds (it is started in the run and ends with
  status 0), exactly two child processes are started, the creation first and the install
  within the environment second, and the verification script is written only after both
  (when the install succeeds; otherwise it is not written).
\<close>

theorem conda_run_two_subprocesses:
  assumes "\<not> is_virtual_env p"
    and "truthy (shutil_which p ''conda'')"
    and "[''conda'', ''create'', ''-n'', ENV_NAME, ''python='' @ TARGET_PY_VERSION, ''-y'']
           \<in> set (calls (events (snd (run p fs))))"
    and "returncode p [''conda'', ''create'', ''-n'', ENV_NAME, ''python='' @ TARGET_PY_VERSION, ''-y''] = 0"
  shows "calls (events (snd (run p fs))) =
           [ [''conda'', ''create'', ''-n'', ENV_NAME, ''python='' @ TARGET_PY_VERSION, ''-y''],
            [''conda'', ''run'', ''-n'', ENV_NAME, ''pip'', ''install''] @ PIP_PACKAGES] \<and>
         effects (events (snd (run p fs))) =
           [Call [''conda'', ''create'', ''-n'', ENV_NAME, ''python='' @ TARGET_PY_VERSION, ''-y''],
            Call ([''conda'', ''run'', ''-n'', ENV_NAME, ''pip'', ''install''] @ PIP_PACKAGES)] @
           (if returncode p ([''conda'', ''run'', ''-n'', ENV_NAME, ''pip'', ''install''] @ PIP_PACKAGES) = 0
            then [Write ''verify_install.py'' verification_code] else [])"
  using assms
  by (auto simp add: main_defs run_simps step_defs Let_def PIP_PACKAGES_def ENV_NAME_def
      TARGET_PY_VERSION_def split: prod.splits if_splits)

theorem conda_run_two_subprocesses_witness:
  "\<not> is_virtual_env system_python_312 \<and>
   truthy (shutil_which system_python_312 ''conda'') \<and>
   effects (events (snd (run system_python_312 no_files))) =
     [Call [''conda'', ''create'', ''-n'', ''pennylane_lab'', ''python=3.13'', ''-y''],
      Call [''conda'', ''run'', ''-n'', ''pennylane_lab'', ''pip'', ''install'', ''pennylane>=0.38'',
            ''pennylane-qiskit'', ''numpy>=2.3.5'', ''stim'', ''matplotlib'', ''jupyter''],
      Write ''verify_install.py'' verification_code]"
proof -
  have detector: "\<not> is_virtual_env system_python_312"
    by (simp add: is_virtual_env_def system_python_312_def)
  have conda: "truthy (shutil_which system_python_312 ''conda'')"
    by (simp add: truthy_def system_python_312_def)
  have started: "[''conda'', ''create'', ''-n'', ENV_NAME, ''python='' @ TARGET_PY_VERSION, ''-y'']
      \<in> set (calls (events (snd (run system_python_312 no_files))))"
    by (simp add: main_defs run_simps step_defs system_python_312_def is_virtual_env_def truthy_def
        ENV_NAME_def TARGET_PY_VERSION_def)
  have rc: "returncode system_python_312 = (\<lambda>cmd. 0)"
    by (simp add: system_python_312_def)
  have succeeded: "returncode system_python_312
      [''conda'', ''create'', ''-n'', ENV_NAME, ''python='' @ TARGET_PY_VERSION, ''-y''] = 0"
    by (simp add: rc)
  show ?thesis
    using detector conda conda_run_two_subprocesses [OF detector conda started succeeded]
    by (simp add: rc PIP_PACKAGES_def ENV_NAME_def TARGET_PY_VERSION_def)
qed

subsection \<open>The verification script on a successful run\<close>

text \<open>
  C7: on every successful provisioning run (the process ends with status 0), whichever
  path was taken, the emitter writes the same text \<open>verification_code\<close> to the fixed
  name \<open>verify_install.py\<close> in the working directory, once; afterwards the file holds
  exactly that text, whatever it held before the run, and every other file is as it was.
  The emitter itself replaces the file's content in whatever state it is called.
\<close>

theorem script_emission:
  assumes "fst (run p fs) = Returned ()"
  shows "files (snd (run p fs)) = fs(''verify_install.py'' \<mapsto> verification_code) \<and>
         effects (events (snd (run p fs))) =
           map Call (calls (events (snd (run p fs)))) @
           [Write ''verify_install.py'' verification_code] \<and>
         files (snd (create_verification_script s)) =
           (files s)(''verify_install.py'' \<mapsto> verification_code)"
  using assms by (simp add: run_files run_effects create_verification_script_run)

theorem script_emission_witness:
  "fst (run venv_python_312 stale_files) = Returned () \<and>
   files (snd (run venv_python_312 stale_files)) ''verify_install.py'' = Some verification_code \<and>
   files (snd (run venv_python_312 stale_files)) ''notes.txt'' = Some ''lab'' \<and>
   fst (run system_python_312 stale_files) = Returned () \<and>
   files (snd (run system_python_312 stale_files)) = files (snd (run venv_python_312 stale_files))"
proof -
  have venv: "fst (run venv_python_312 stale_files) = Returned ()"
    by (simp add: main_defs run_simps step_defs venv_python_312_def is_virtual_env_def
        str_nat.simps)
  have conda: "fst (run system_python_312 stale_files) = Returned ()"
    by (simp add: main_defs run_simps step_defs system_python_312_def is_virtual_env_def
        truthy_def str_nat.simps)
  show ?thesis
    using venv conda script_emission [OF venv] script_emission [OF conda]
    by (simp add: stale_files_def)
qed

subsection \<open>The branch of \<open>main\<close> for a creator that returns \<open>False\<close>\<close>

text \<open>
  C8: on the non-isolated path (the body of \<open>main\<close>'s \<open>else\<close>), if the creator is reached
  and returns \<open>False\<close>, which it does exactly when the detector is true inside it, the
  process ends without emitting the verification script, without any completion output
  and without an error: \<open>main\<close> returns, so the exit status is 0. No file changes, no child
  process is started, and the only output is the status line, the version line and the
  creator's three lines. (Within one run nothing changes the process between the
  detection in \<open>main\<close> and the one in the creator, so the theorem is about the \<open>else\<close> body
  on any process.)
\<close>

theorem creator_false_ends_silently:
  assumes "fst (create_conda_env_if_needed p s0) = Returned False"
    and "sys_version_info p = (major, minor, micro)"
    and "3 < major \<or> (major = 3 \<and> 10 \<le> minor)"
  shows "is_virtual_env p \<and>
         fst (conda_flow p s) = Returned () \<and>
         exit_status (fst (conda_flow p s)) = 0 \<and>
         files (snd (conda_flow p s)) = files s \<and>
         effects (events (snd (conda_flow p s))) = effects (events s) \<and>
         prints (events (snd (conda_flow p s))) =
           prints (events s) @
           [''Status: System python detected (unsafe). initializing Conda flow.'',
            ''    Current Python: '' @ str_nat major @ ''.'' @ str_nat minor @ ''.'' @ str_nat micro,
            ''\<newline>[+] Checking for existing environment...'',
            ''    Active environment detected ('' @ sys_prefix p @ '').'',
            ''    Skipping new environment creation.'']"
proof -
  from assms(1) have detected: "is_virtual_env p"
    by (simp add: create_conda_env_if_needed_run Let_def split: if_splits)
  with assms(2,3) show ?thesis
    by (auto simp add: conda_flow_def run_simps step_defs)
qed

theorem creator_false_ends_silently_witness:
  "fst (create_conda_env_if_needed venv_python_312 \<lparr>events = [], files = stale_files\<rparr>) =
     Returned False \<and>
   fst (conda_flow venv_python_312 \<lparr>events = [], files = stale_files\<rparr>) = Returned () \<and>
   exit_status (fst (conda_flow venv_python_312 \<lparr>events = [], files = stale_files\<rparr>)) = 0 \<and>
   files (snd (conda_flow venv_python_312 \<lparr>events = [], files = stale_files\<rparr>)) = stale_files \<and>
   effects (events (snd (conda_flow venv_python_312 \<lparr>events = [], files = stale_files\<rparr>))) = [] \<and>
   prints (events (snd (conda_flow venv_python_312 \<lparr>events = [], files = stale_files\<rparr>))) =
     [''Status: System python detected (unsafe). initializing Conda flow.'',
      ''    Current Python: 3.12.1'',
      ''\<newline>[+] Checking for existing environment...'',
      ''    Active environment detected (/home/lab/.venv).'',
      ''    Skipping new environment creation.'']"
proof -
  have created:
    "fst (create_conda_env_if_needed venv_python_312 \<lparr>events = [], files = stale_files\<rparr>) =
       Returned False"
    by (simp add: create_conda_env_if_needed_run is_virtual_env_def venv_python_312_def)
  have version: "sys_version_info venv_python_312 = (3, 12, 1)"
    and prefix: "sys_prefix venv_python_312 = ''/home/lab/.venv''"
    by (simp_all add: venv_python_312_def)
  have gate: "3 < (3::nat) \<or> ((3::nat) = 3 \<and> 10 \<le> (12::nat))"
    by simp
  show ?thesis
    using created
      creator_false_ends_silently [OF created version gate, of "\<lparr>events = [], files = stale_files\<rparr>"]
    by (simp add: prefix str_nat.simps)
qed

subsection \<open>The argument vectors\<close>

text \<open>
  C9: every child process is started with the documented argument vector: the in-place
  install as the current interpreter followed by \<open>-m pip install\<close> and the package list,
  the creation as \<open>conda create -n pennylane_lab python=3.13 -y\<close>, the install within the
  environment as \<open>conda run -n pennylane_lab pip install\<close> and the package list. A run
  starts none of them, the in-place install alone, the creation alone, or the creation and
  then the install within the environment; both installs take the one list
  \<open>PIP_PACKAGES\<close> in its order.
\<close>

theorem subprocess_argument_vectors:
  "calls (events (snd (run p fs))) \<in>
     {[],
      [ [sys_executable p, ''-m'', ''pip'', ''install''] @ PIP_PACKAGES],
      [ [''conda'', ''create'', ''-n'', ''pennylane_lab'', ''python=3.13'', ''-y''] ],
      [ [''conda'', ''create'', ''-n'', ''pennylane_lab'', ''python=3.13'', ''-y''],
       [''conda'', ''run'', ''-n'', ''pennylane_lab'', ''pip'', ''install''] @ PIP_PACKAGES]} \<and>
   calls (events (snd (install_packages_current_env p \<lparr>events = [], files = fs\<rparr>))) =
     [ [sys_executable p, ''-m'', ''pip'', ''install''] @ PIP_PACKAGES] \<and>
   calls (events (snd (install_packages_conda_env p \<lparr>events = [], files = fs\<rparr>))) =
     [ [''conda'', ''run'', ''-n'', ''pennylane_lab'', ''pip'', ''install''] @ PIP_PACKAGES] \<and>
   PIP_PACKAGES =
     [''pennylane>=0.38'', ''pennylane-qiskit'', ''numpy>=2.3.5'', ''stim'', ''matplotlib'', ''jupyter'']"
  by (simp add: main_defs run_simps step_defs Let_def PIP_PACKAGES_def split: prod.splits)

theorem subprocess_argument_vectors_witness:
  "calls (events (snd (run system_python_312 no_files))) =
     [ [''conda'', ''create'', ''-n'', ''pennylane_lab'', ''python=3.13'', ''-y''],
      [''conda'', ''run'', ''-n'', ''pennylane_lab'', ''pip'', ''install'', ''pennylane>=0.38'',
       ''pennylane-qiskit'', ''numpy>=2.3.5'', ''stim'', ''matplotlib'', ''jupyter''] ]"
proof -
  have two: "length (calls (events (snd (run system_python_312 no_files)))) = 2"
    by (simp add: main_defs run_simps step_defs system_python_312_def is_virtual_env_def truthy_def)
  show ?thesis
    using two subprocess_argument_vectors [of system_python_312 no_files]
    by auto
qed

subsection \<open>The emitted script and the shipped one\<close>

text \<open>
  C10 (as stated): the text the emitter writes is byte for byte the shipped file
  \<open>src/verify_install.py\<close>. The literal in \<open>create_verification_script\<close> ends with a
  line feed after \<open>main()\<close>; the shipped file ends with \<open>main()\<close> itself. What the
  emitter leaves in an empty directory is therefore not the shipped text.
\<close>

theorem emitted_script_counterexample:
  "files (snd (create_verification_script \<lparr>events = [], files = no_files\<rparr>)) ''verify_install.py''
     \<noteq> Some verify_install_py"
  by (simp add: create_verification_script_run verification_code_def verify_install_py_def)

text \<open>
  C10 (amended): the text written by the emitter is the text of the shipped file
  \<open>src/verify_install.py\<close> followed by one line feed, so the two are the same program and
  differ only in the line end of the last line.
\<close>

theorem emitted_script_is_shipped_plus_newline:
  "verification_code = verify_install_py @ ''\<newline>'' \<and>
   files (snd (create_verification_script s)) ''verify_install.py'' =
     Some (verify_install_py @ ''\<newline>'')"
  by (simp add: create_verification_script_run verification_code_def verify_install_py_def)

end
